theory Spec2Isabelle
  imports Complex_Main "HOL-Library.Char_ord" "HOL-Library.List_Lexorder"
begin

section \<open>extract-gl-client-prof.py: data model\<close>

text \<open>
  The script reads a gluster client profile log, builds a list of \<open>ProfileInterval\<close>
  objects (one per "Interval N stats" marker), each holding a dictionary of
  \<open>FopProfile\<close> objects, and writes one .csv table per statistic and per byte
  direction.

  Python floats are modelled as real numbers: rounding, infinities and NaN are left
  out, every other step of the arithmetic is the source's. Exceptions are values of
  the type \<open>error\<close>; a function that can raise returns \<open>error + 'a\<close>.
\<close>

datatype error =
    AssertionError
  | ValueError
  | IndexError
  | TypeError
  | KeyError
  | ZeroDivisionError
  | DuplicateFop

text \<open>\<open>DuplicateFop\<close> is the plain \<open>Exception('did not expect fop already defined: ...')\<close>.\<close>

record FopProfile =
  avg_lat :: real
  min_lat :: real
  max_lat :: real
  calls :: real
  pct_lat :: real

text \<open>\<open>FopProfile.__init__\<close>: \<open>pct_lat\<close> starts at 0.0.\<close>

definition new_FopProfile :: "real \<Rightarrow> real \<Rightarrow> real \<Rightarrow> real \<Rightarrow> FopProfile" where
  "new_FopProfile a mn mx c =
     \<lparr>avg_lat = a, min_lat = mn, max_lat = mx, calls = c, pct_lat = 0\<rparr>"

record ProfileInterval =
  bytes_read :: "int option"
  bytes_written :: "int option"
  duration :: "int option"
  fop_profiles :: "string \<rightharpoonup> FopProfile"

text \<open>\<open>ProfileInterval.__init__\<close>: the three numbers are \<open>None\<close>, the dictionary is empty.\<close>

definition new_ProfileInterval :: ProfileInterval where
  "new_ProfileInterval =
     \<lparr>bytes_read = None, bytes_written = None, duration = None, fop_profiles = Map.empty\<rparr>"

definition stat_names :: "string list" where
  "stat_names = [''pct-lat'', ''avg-lat'', ''min-lat'', ''max-lat'', ''call-rate'']"

definition directions :: "string list" where
  "directions = [''MBps-read'', ''MBps-written'']"

definition min_lat_infinity :: real where
  "min_lat_infinity = 10 ^ 24"

text \<open>
  \<open>pbench_graphs\<close> is \<open>True\<close> unless \<open>os.getenv('SKIP_PBENCH_GRAPHING')\<close> is truthy,
  that is, unless the variable is set to a non-empty string.
\<close>

definition pbench_graphs :: "(string \<rightharpoonup> string) \<Rightarrow> bool" where
  "pbench_graphs env =
     (case env ''SKIP_PBENCH_GRAPHING'' of None \<Rightarrow> True | Some v \<Rightarrow> v = [])"

section \<open>Python strings and lists\<close>

text \<open>\<open>xs[i]\<close> on a list: negative indices count from the end, \<open>None\<close> is IndexError.\<close>

definition py_nth :: "'a list \<Rightarrow> int \<Rightarrow> 'a option" where
  "py_nth xs i =
     (let n = int (length xs); j = (if i < 0 then n + i else i)
      in if 0 \<le> j \<and> j < n then Some (xs ! nat j) else None)"

text \<open>The store \<open>xs[i] = v\<close> at an index that \<open>py_nth\<close> accepts.\<close>

definition py_update :: "'a list \<Rightarrow> int \<Rightarrow> 'a \<Rightarrow> 'a list" where
  "py_update xs i v = xs[nat (if i < 0 then int (length xs) + i else i) := v]"

definition is_space :: "char \<Rightarrow> bool" where
  "is_space c = (c \<in> set [CHR '' '', CHR 0x09, CHR 0x0A, CHR 0x0B, CHR 0x0C, CHR 0x0D])"

definition is_upper :: "char \<Rightarrow> bool" where
  "is_upper c = (65 \<le> (of_char c :: nat) \<and> (of_char c :: nat) \<le> 90)"

text \<open>\<open>str.strip()\<close> with no argument.\<close>

definition strip :: "string \<Rightarrow> string" where
  "strip s = rev (dropWhile is_space (rev (dropWhile is_space s)))"

text \<open>\<open>str.split()\<close> with no argument: the maximal runs of non-whitespace characters.\<close>

fun split_acc :: "string \<Rightarrow> string \<Rightarrow> string list" where
  "split_acc cur [] = (if cur = [] then [] else [cur])"
| "split_acc cur (c # cs) =
     (if is_space c then (if cur = [] then split_acc [] cs else cur # split_acc [] cs)
      else split_acc (cur @ [c]) cs)"

definition split :: "string \<Rightarrow> string list" where
  "split s = split_acc [] s"

fun starts_with :: "string \<Rightarrow> string \<Rightarrow> bool" where
  "starts_with s [] = True"
| "starts_with [] (p # ps) = False"
| "starts_with (c # cs) (p # ps) = (c = p \<and> starts_with cs ps)"

text \<open>\<open>ln.__contains__(sub)\<close>: \<open>sub\<close> occurs somewhere in \<open>ln\<close>.\<close>

fun contains :: "string \<Rightarrow> string \<Rightarrow> bool" where
  "contains [] sub = (sub = [])"
| "contains (c # cs) sub = (starts_with (c # cs) sub \<or> contains cs sub)"

text \<open>
  \<open>re.compile('^[A-Z]{3,15}').match(ln)\<close> succeeds exactly when \<open>ln\<close> begins with at
  least three capital letters.
\<close>

definition all_caps_name_match :: "string \<Rightarrow> bool" where
  "all_caps_name_match line = (3 \<le> length (takeWhile is_upper line))"

text \<open>\<open>','.join(xs)\<close>.\<close>

fun join_comma :: "string list \<Rightarrow> string" where
  "join_comma [] = []"
| "join_comma [x] = x"
| "join_comma (x # y # ys) = x @ '','' @ join_comma (y # ys)"

section \<open>Library conversions\<close>

text \<open>
  \<open>int(str)\<close>, \<open>float(str)\<close> and \<open>time.mktime(time.strptime(str, fmt)) * 1000\<close> are
  library routines; what they accept depends on the interpreter version, the locale and
  the time zone. They are parameters of the parser (\<open>None\<close> is ValueError), so every
  general theorem below holds whatever they accept. \<open>decimal_lib\<close> is the instance
  used to run the parser on concrete logs: plain signed decimal numerals, and the epoch
  milliseconds of the one time stamp the examples use.
\<close>

record pylib =
  py_int :: "string \<Rightarrow> int option"
  py_float :: "string \<Rightarrow> real option"
  py_mktime_ms :: "string \<Rightarrow> int option"

definition is_digit :: "char \<Rightarrow> bool" where
  "is_digit c = (48 \<le> (of_char c :: nat) \<and> (of_char c :: nat) \<le> 57)"

definition digit_val :: "char \<Rightarrow> nat" where
  "digit_val c = of_char c - 48"

definition dec_nat :: "string \<Rightarrow> nat option" where
  "dec_nat ds =
     (if ds \<noteq> [] \<and> list_all is_digit ds
      then Some (foldl (\<lambda>n c. 10 * n + digit_val c) 0 ds) else None)"

definition dec_int :: "string \<Rightarrow> int option" where
  "dec_int s =
     (case s of
        [] \<Rightarrow> None
      | c # cs \<Rightarrow>
          if c = CHR ''-'' then map_option (\<lambda>n. - int n) (dec_nat cs)
          else if c = CHR ''+'' then map_option int (dec_nat cs)
          else map_option int (dec_nat s))"

definition dec_ufloat :: "string \<Rightarrow> real option" where
  "dec_ufloat s =
     (let ip = takeWhile (\<lambda>c. c \<noteq> CHR ''.'') s;
          fp = drop 1 (dropWhile (\<lambda>c. c \<noteq> CHR ''.'') s)
      in map_option (\<lambda>n. real n / 10 ^ length fp) (dec_nat (ip @ fp)))"

definition dec_float :: "string \<Rightarrow> real option" where
  "dec_float s =
     (case s of
        [] \<Rightarrow> None
      | c # cs \<Rightarrow>
          if c = CHR ''-'' then map_option uminus (dec_ufloat cs)
          else if c = CHR ''+'' then dec_ufloat cs
          else dec_ufloat s)"

definition decimal_lib :: pylib where
  "decimal_lib =
     \<lparr>py_int = dec_int, py_float = dec_float,
      py_mktime_ms = (\<lambda>s. if s = ''Wed Oct 21 22:50:28 UTC 2015''
                           then Some 1445467828000 else None)\<rparr>"

section \<open>parse_input\<close>

text \<open>
  The local variables of \<open>parse_input\<close> that the loop over the lines reads and
  writes. \<open>warnings\<close> collects the arguments of the WARNING lines printed for a
  deviating duration: sample, duration, expected interval.
\<close>

record parse_state =
  found_cumulative_output :: bool
  found_interval_output :: bool
  fop_names :: "string set"
  last_intvl :: int
  intvl :: int
  sample :: int
  intervals :: "ProfileInterval list"
  warnings :: "(int \<times> int \<times> int) list"

definition init_state :: parse_state where
  "init_state =
     \<lparr>found_cumulative_output = False, found_interval_output = False, fop_names = {},
      last_intvl = - 2, intvl = - 1, sample = - 1, intervals = [], warnings = []\<rparr>"

text \<open>\<open>int(tokens[2])\<close>: IndexError before ValueError.\<close>

definition int_token2 :: "pylib \<Rightarrow> string list \<Rightarrow> error + int" where
  "int_token2 L tokens =
     (case py_nth tokens 2 of
        None \<Rightarrow> Inl IndexError
      | Some t \<Rightarrow> (case py_int L t of None \<Rightarrow> Inl ValueError | Some n \<Rightarrow> Inr n))"

text \<open>\<open>float(tokens[k])\<close>.\<close>

definition float_token :: "pylib \<Rightarrow> string list \<Rightarrow> int \<Rightarrow> error + real" where
  "float_token L tokens k =
     (case py_nth tokens k of
        None \<Rightarrow> Inl IndexError
      | Some t \<Rightarrow> (case py_float L t of None \<Rightarrow> Inl ValueError | Some x \<Rightarrow> Inr x))"

text \<open>
  Lines 260 to 268, the branch of an "Interval ... stats" line. \<open>interval_number\<close> is
  read and not used again; the assertion compares the two counters of the loop.
\<close>

definition on_interval_marker :: "pylib \<Rightarrow> string list \<Rightarrow> parse_state \<Rightarrow> error + parse_state" where
  "on_interval_marker L tokens s =
     (case int_token2 L tokens of
        Inl e \<Rightarrow> Inl e
      | Inr interval_number \<Rightarrow>
          if intvl s \<noteq> last_intvl s + 1 then Inl AssertionError
          else Inr (s\<lparr>last_intvl := intvl s, intvl := intvl s + 1,
                      intervals := intervals s @ [new_ProfileInterval],
                      found_interval_output := True\<rparr>))"

text \<open>Lines 274 to 287, the branch of a "Duration :" line.\<close>

definition on_duration :: "pylib \<Rightarrow> int \<Rightarrow> string list \<Rightarrow> parse_state \<Rightarrow> error + parse_state" where
  "on_duration L expected_sample_interval tokens s =
     (if found_cumulative_output s = found_interval_output s then Inl AssertionError
      else
        (case int_token2 L tokens of
           Inl e \<Rightarrow> Inl e
         | Inr dur \<Rightarrow>
             let diff_from_expected = \<bar>dur - expected_sample_interval\<bar> in
             if found_interval_output s then
               let s1 = (if diff_from_expected > 1
                         then s\<lparr>warnings := warnings s @ [(sample s, dur, expected_sample_interval)]\<rparr>
                         else s)
               in (case py_nth (intervals s1) (intvl s1) of
                     None \<Rightarrow> Inl IndexError
                   | Some fops_in_interval \<Rightarrow>
                       Inr (s1\<lparr>intervals :=
                              py_update (intervals s1) (intvl s1)
                                (fops_in_interval\<lparr>duration := Some dur\<rparr>)\<rparr>))
             else Inr s))"

text \<open>Lines 289 to 299, the branches of a "BytesRead" and of a "BytesWritten" line.\<close>

definition on_bytes_read :: "pylib \<Rightarrow> string list \<Rightarrow> parse_state \<Rightarrow> error + parse_state" where
  "on_bytes_read L tokens s =
     (if found_interval_output s then
        (case py_nth (intervals s) (intvl s) of
           None \<Rightarrow> Inl IndexError
         | Some intvl_profile \<Rightarrow>
             (case int_token2 L tokens of
                Inl e \<Rightarrow> Inl e
              | Inr n \<Rightarrow>
                  Inr (s\<lparr>intervals :=
                         py_update (intervals s) (intvl s)
                           (intvl_profile\<lparr>bytes_read := Some n\<rparr>)\<rparr>)))
      else Inr s)"

definition on_bytes_written :: "pylib \<Rightarrow> string list \<Rightarrow> parse_state \<Rightarrow> error + parse_state" where
  "on_bytes_written L tokens s =
     (if found_interval_output s then
        (case py_nth (intervals s) (intvl s) of
           None \<Rightarrow> Inl IndexError
         | Some intvl_profile \<Rightarrow>
             (case int_token2 L tokens of
                Inl e \<Rightarrow> Inl e
              | Inr n \<Rightarrow>
                  Inr (s\<lparr>intervals :=
                         py_update (intervals s) (intvl s)
                           (intvl_profile\<lparr>bytes_written := Some n\<rparr>)\<rparr>)))
      else Inr s)"

text \<open>
  The arguments of \<open>FopProfile(float(tokens[2]), float(tokens[4]), float(tokens[6]),
  float(tokens[1]))\<close>, evaluated left to right.
\<close>

definition fop_row_profile :: "pylib \<Rightarrow> string list \<Rightarrow> error + FopProfile" where
  "fop_row_profile L tokens =
     (case float_token L tokens 2 of Inl e \<Rightarrow> Inl e | Inr a \<Rightarrow>
      (case float_token L tokens 4 of Inl e \<Rightarrow> Inl e | Inr mn \<Rightarrow>
       (case float_token L tokens 6 of Inl e \<Rightarrow> Inl e | Inr mx \<Rightarrow>
        (case float_token L tokens 1 of Inl e \<Rightarrow> Inl e | Inr c \<Rightarrow>
           Inr (new_FopProfile a mn mx c)))))"

text \<open>
  The exception raised for a name that the interval already has. Its message formats
  \<open>str(intvl_profile)\<close>, whose \<open>'%d, %d, ...'\<close> raises TypeError while
  \<open>bytes_read\<close> or \<open>bytes_written\<close> is still \<open>None\<close>.
\<close>

definition duplicate_error :: "ProfileInterval \<Rightarrow> error" where
  "duplicate_error intvl_profile =
     (if bytes_read intvl_profile = None \<or> bytes_written intvl_profile = None
      then TypeError else DuplicateFop)"

text \<open>Lines 312 to 329, the branch of an operation row inside an interval block.\<close>

definition on_fop_row :: "pylib \<Rightarrow> string list \<Rightarrow> parse_state \<Rightarrow> error + parse_state" where
  "on_fop_row L tokens s =
     (case py_nth (intervals s) (intvl s) of
        None \<Rightarrow> Inl IndexError
      | Some intvl_profile \<Rightarrow>
          (case py_nth tokens 0 of
             None \<Rightarrow> Inl IndexError
           | Some fop_name \<Rightarrow>
               (case fop_row_profile L tokens of
                  Inl e \<Rightarrow> Inl e
                | Inr new_fop_profile \<Rightarrow>
                    (case fop_profiles intvl_profile fop_name of
                       Some fop_stats \<Rightarrow> Inl (duplicate_error intvl_profile)
                     | None \<Rightarrow>
                         Inr (s\<lparr>sample := sample s + 1,
                                fop_names := insert fop_name (fop_names s),
                                intervals :=
                                  py_update (intervals s) (intvl s)
                                    (intvl_profile\<lparr>fop_profiles :=
                                       (fop_profiles intvl_profile)(fop_name \<mapsto> new_fop_profile)\<rparr>)\<rparr>)))))"

text \<open>The body of the loop \<open>for ln in lines[2:]\<close>: the chain of \<open>if\<close>/\<open>elif\<close> tests.\<close>

definition parse_line :: "pylib \<Rightarrow> int \<Rightarrow> string \<Rightarrow> parse_state \<Rightarrow> error + parse_state" where
  "parse_line L expected_sample_interval line s =
     (let tokens = split line in
      if contains line ''Interval'' \<and> contains line ''stats'' then on_interval_marker L tokens s
      else if contains line ''Cumulative Stats'' then Inr (s\<lparr>found_cumulative_output := True\<rparr>)
      else if contains line ''Duration :'' then on_duration L expected_sample_interval tokens s
      else if contains line ''BytesRead'' then on_bytes_read L tokens s
      else if contains line ''BytesWritten'' then on_bytes_written L tokens s
      else if contains line ''Cumulative stats''
        then Inr (s\<lparr>found_interval_output := False, found_cumulative_output := True\<rparr>)
      else if contains line ''Current open fd'' then Inr (s\<lparr>found_cumulative_output := False\<rparr>)
      else if found_interval_output s \<and> all_caps_name_match line then on_fop_row L tokens s
      else Inr s)"

fun parse_lines :: "pylib \<Rightarrow> int \<Rightarrow> string list \<Rightarrow> parse_state \<Rightarrow> error + parse_state" where
  "parse_lines L expected_sample_interval [] s = Inr s"
| "parse_lines L expected_sample_interval (line # rest) s =
     (case parse_line L expected_sample_interval line s of
        Inl e \<Rightarrow> Inl e
      | Inr s' \<Rightarrow> parse_lines L expected_sample_interval rest s')"

text \<open>
  The module globals that \<open>parse_input\<close> sets, the list \<open>intervals\<close> apart: it is
  the store that the output functions update, and is passed beside this record.
\<close>

record globals =
  start_time :: int
  expected_sample_interval :: int
  expected_sample_count :: int
  sorted_fop_names :: "string list"

text \<open>The first two lines: \<open>"<count> <interval>"\<close> and the time stamp.\<close>

definition parse_header :: "pylib \<Rightarrow> string list \<Rightarrow> error + (int \<times> int \<times> int)" where
  "parse_header L lines =
     (case py_nth lines 0 of
        None \<Rightarrow> Inl IndexError
      | Some l0 \<Rightarrow>
          let tokens = split l0 in
          (case py_nth tokens 0 of
             None \<Rightarrow> Inl IndexError
           | Some t0 \<Rightarrow>
               (case py_int L t0 of
                  None \<Rightarrow> Inl ValueError
                | Some cnt \<Rightarrow>
                    (case py_nth tokens 1 of
                       None \<Rightarrow> Inl IndexError
                     | Some t1 \<Rightarrow>
                         (case py_int L t1 of
                            None \<Rightarrow> Inl ValueError
                          | Some ivl \<Rightarrow>
                              (case py_nth lines 1 of
                                 None \<Rightarrow> Inl IndexError
                               | Some l1 \<Rightarrow>
                                   (case py_mktime_ms L l1 of
                                      None \<Rightarrow> Inl ValueError
                                    | Some t \<Rightarrow> Inr (cnt, ivl, t))))))))"

text \<open>
  \<open>parse_raw\<close> is \<open>parse_input\<close> up to the end of the loop, with the final local
  state; \<open>parse_input\<close> keeps what the function leaves in the globals. The argument is
  the result of \<open>readlines()\<close>.
\<close>

definition parse_raw :: "pylib \<Rightarrow> string list \<Rightarrow> error + (int \<times> int \<times> int) \<times> parse_state" where
  "parse_raw L raw =
     (let lines = map strip raw in
      case parse_header L lines of
        Inl e \<Rightarrow> Inl e
      | Inr (cnt, ivl, t) \<Rightarrow>
          (case parse_lines L ivl (drop 2 lines) init_state of
             Inl e \<Rightarrow> Inl e
           | Inr s \<Rightarrow> Inr ((cnt, ivl, t), s)))"

definition parse_input :: "pylib \<Rightarrow> string list \<Rightarrow> error + globals \<times> ProfileInterval list" where
  "parse_input L raw =
     (case parse_raw L raw of
        Inl e \<Rightarrow> Inl e
      | Inr ((cnt, ivl, t), s) \<Rightarrow>
          Inr (\<lparr>start_time = t, expected_sample_interval = ivl,
                expected_sample_count = cnt,
                sorted_fop_names = sorted_list_of_set (fop_names s)\<rparr>,
               intervals s))"

section \<open>Number formatting\<close>

text \<open>
  The \<open>%\<close> conversions the script uses. \<open>%d\<close> prints an integer in decimal;
  \<open>%W.Pf\<close> rounds to \<open>P\<close> decimals (a tie goes to the even neighbour) and pads with
  blanks to the width \<open>W\<close>, on the left, or on the right when the flag \<open>-\<close> is given.
\<close>

definition digit_char :: "nat \<Rightarrow> char" where
  "digit_char d = ''0123456789'' ! d"

fun show_nat :: "nat \<Rightarrow> string" where
  "show_nat n =
     (if n < 10 then [digit_char n] else show_nat (n div 10) @ [digit_char (n mod 10)])"

declare show_nat.simps [simp del]

definition show_int :: "int \<Rightarrow> string" where
  "show_int i = (if i < 0 then CHR ''-'' # show_nat (nat (- i)) else show_nat (nat i))"

definition round_half_even :: "real \<Rightarrow> int" where
  "round_half_even x =
     (let f = \<lfloor>x\<rfloor>; d = x - of_int f
      in if d < 1 / 2 then f else if 1 / 2 < d then f + 1
         else if even f then f else f + 1)"

definition pad_left :: "nat \<Rightarrow> string \<Rightarrow> string" where
  "pad_left w s = replicate (w - length s) CHR '' '' @ s"

definition pad_right :: "nat \<Rightarrow> string \<Rightarrow> string" where
  "pad_right w s = s @ replicate (w - length s) CHR '' ''"

definition fmt_fixed :: "nat \<Rightarrow> real \<Rightarrow> string" where
  "fmt_fixed p x =
     (let m = nat (round_half_even (\<bar>x\<bar> * 10 ^ p));
          ip = show_nat (m div 10 ^ p);
          fp = show_nat (m mod 10 ^ p)
      in (if x < 0 then [CHR ''-''] else []) @ ip @
         (if p = 0 then [] else CHR ''.'' # replicate (p - length fp) CHR ''0'' @ fp))"

section \<open>FopProfile\<close>

text \<open>
  \<open>field2str\<close>: \<open>Inr None\<close> is the \<open>None\<close> that the method returns for a statistic that
  is none of \<open>stat_names\<close>. In the call-rate branch \<open>float(duration)\<close> raises
  TypeError on \<open>None\<close> and the division raises ZeroDivisionError on 0.
\<close>

definition field2str :: "FopProfile \<Rightarrow> string \<Rightarrow> int option \<Rightarrow> error + string option" where
  "field2str self stat dur =
     (if stat = stat_names ! 0 then Inr (Some (pad_right 6 (fmt_fixed 2 (pct_lat self))))
      else if stat = stat_names ! 1 then Inr (Some (pad_left 8 (fmt_fixed 0 (avg_lat self))))
      else if stat = stat_names ! 2 then
        (if min_lat self = min_lat_infinity then Inr (Some [])
         else Inr (Some (pad_left 8 (fmt_fixed 0 (min_lat self)))))
      else if stat = stat_names ! 3 then
        (if max_lat self = 0 then Inr (Some [])
         else Inr (Some (pad_left 8 (fmt_fixed 0 (max_lat self)))))
      else if stat = stat_names ! 4 then
        (case dur of
           None \<Rightarrow> Inl TypeError
         | Some d \<Rightarrow>
             if d = 0 then Inl ZeroDivisionError
             else Inr (Some (pad_left 10 (fmt_fixed 3 (calls self / real_of_int d)))))
      else Inr None)"

definition accumulate :: "FopProfile \<Rightarrow> FopProfile \<Rightarrow> FopProfile" where
  "accumulate self addend =
     (let s1 = self\<lparr>avg_lat := avg_lat self + avg_lat addend * calls addend,
                    calls := calls self + calls addend\<rparr>
      in if calls addend > 0
         then s1\<lparr>max_lat := max (max_lat self) (max_lat addend),
                 min_lat := min (min_lat self) (min_lat addend)\<rparr>
         else s1)"

text \<open>The division raises ZeroDivisionError when \<open>calls\<close> is 0; the handler zeroes both fields.\<close>

definition normalize_sum :: "FopProfile \<Rightarrow> FopProfile" where
  "normalize_sum self =
     (if calls self = 0 then self\<lparr>pct_lat := 0, avg_lat := 0\<rparr>
      else self\<lparr>avg_lat := avg_lat self / calls self\<rparr>)"

definition get_pct_lat :: "FopProfile \<Rightarrow> real \<Rightarrow> FopProfile" where
  "get_pct_lat self total_lat =
     (if total_lat = 0 then self\<lparr>pct_lat := 0\<rparr>
      else self\<lparr>pct_lat := 100 * (avg_lat self * calls self) / total_lat\<rparr>)"

section \<open>Output\<close>

definition gen_timestamp_ms :: "globals \<Rightarrow> int \<Rightarrow> int" where
  "gen_timestamp_ms G sample_index =
     start_time G + (expected_sample_interval G * sample_index) * 1000"

definition get_interval :: "globals \<Rightarrow> int \<Rightarrow> string \<Rightarrow> real" where
  "get_interval G interval_index duration_type =
     (if duration_type = ''cumulative''
      then real_of_int interval_index * real_of_int (expected_sample_interval G)
      else real_of_int (expected_sample_interval G))"

text \<open>
  A table is the list of the lines written to its file, each without its final newline.
  What was written before an exception is not kept: the result is the exception alone.

  \<open>bytes_row\<close> is one pass of the loop over \<open>j\<close> in \<open>gen_output_bytes\<close>: dividing
  \<open>None\<close> raises TypeError, dividing by a zero interval ZeroDivisionError.
\<close>

definition bytes_row :: "bool \<Rightarrow> globals \<Rightarrow> string \<Rightarrow> nat \<Rightarrow> ProfileInterval \<Rightarrow> error + string" where
  "bytes_row pb G direction j interval_profile =
     (let ts = (if pb then show_int (gen_timestamp_ms G (int j)) @ '', '' else []);
          rate_interval = get_interval G (int j) ''interval'';
          transfer = (if contains direction ''read'' then bytes_read interval_profile
                      else bytes_written interval_profile)
      in case transfer of
           None \<Rightarrow> Inl TypeError
         | Some b \<Rightarrow>
             if rate_interval = 0 then Inl ZeroDivisionError
             else Inr (ts @ pad_right 8 (fmt_fixed 3 ((real_of_int b / rate_interval) / 1000000))))"

fun bytes_rows :: "bool \<Rightarrow> globals \<Rightarrow> string \<Rightarrow> nat \<Rightarrow> ProfileInterval list \<Rightarrow> error + string list" where
  "bytes_rows pb G direction j [] = Inr []"
| "bytes_rows pb G direction j (iv # ivs) =
     (case bytes_row pb G direction j iv of
        Inl e \<Rightarrow> Inl e
      | Inr row \<Rightarrow>
          (case bytes_rows pb G direction (Suc j) ivs of
             Inl e \<Rightarrow> Inl e
           | Inr rows \<Rightarrow> Inr (row # rows)))"

text \<open>The file of one direction: its name and its lines.\<close>

definition bytes_table :: "bool \<Rightarrow> globals \<Rightarrow> ProfileInterval list \<Rightarrow> string \<Rightarrow> error + string \<times> string list" where
  "bytes_table pb G ivs direction =
     (case bytes_rows pb G direction 0 ivs of
        Inl e \<Rightarrow> Inl e
      | Inr rows \<Rightarrow>
          Inr (direction @ ''.csv'', ((if pb then ''timestamp_ms, '' else []) @ ''MB/s'') # rows))"

fun gen_output_bytes_loop :: "bool \<Rightarrow> globals \<Rightarrow> ProfileInterval list \<Rightarrow> string list \<Rightarrow> error + (string \<times> string list) list" where
  "gen_output_bytes_loop pb G ivs [] = Inr []"
| "gen_output_bytes_loop pb G ivs (direction # ds) =
     (case bytes_table pb G ivs direction of
        Inl e \<Rightarrow> Inl e
      | Inr f \<Rightarrow>
          (case gen_output_bytes_loop pb G ivs ds of
             Inl e \<Rightarrow> Inl e
           | Inr fs \<Rightarrow> Inr (f # fs)))"

definition gen_output_bytes :: "bool \<Rightarrow> globals \<Rightarrow> ProfileInterval list \<Rightarrow> error + (string \<times> string list) list" where
  "gen_output_bytes pb G ivs = gen_output_bytes_loop pb G ivs directions"

text \<open>
  The first inner loop of \<open>gen_per_fop_stats\<close>: every name of \<open>sorted_fop_names\<close> is
  looked up in the interval's dictionary (KeyError when it is not there) and added to
  the accumulator \<open>all_fop_profile\<close>.
\<close>

fun accumulate_all :: "string list \<Rightarrow> (string \<rightharpoonup> FopProfile) \<Rightarrow> FopProfile \<Rightarrow> error + FopProfile" where
  "accumulate_all [] fops_in_interval all_fop_profile = Inr all_fop_profile"
| "accumulate_all (fop # rest) fops_in_interval all_fop_profile =
     (case fops_in_interval fop of
        None \<Rightarrow> Inl KeyError
      | Some fop_stats \<Rightarrow>
          accumulate_all rest fops_in_interval (accumulate all_fop_profile fop_stats))"

text \<open>
  The second inner loop: \<open>get_pct_lat\<close> changes the object that the dictionary holds,
  then the field is formatted. The functions that run over the store return it beside
  their result, also when the result is an exception.
\<close>

fun fill_columns :: "string \<Rightarrow> int option \<Rightarrow> real \<Rightarrow> string list \<Rightarrow> (string \<rightharpoonup> FopProfile)
    \<Rightarrow> (error + string option list) \<times> (string \<rightharpoonup> FopProfile)" where
  "fill_columns stat dur total_lat [] fops = (Inr [], fops)"
| "fill_columns stat dur total_lat (fop # rest) fops =
     (case fops fop of
        None \<Rightarrow> (Inl KeyError, fops)
      | Some fop_stats0 \<Rightarrow>
          let fops1 = fops(fop \<mapsto> get_pct_lat fop_stats0 total_lat);
              (fop_stats, fops2) =
                (case fops1 fop of
                   Some f \<Rightarrow> (f, fops1)
                 | None \<Rightarrow> (get_pct_lat fop_stats0 total_lat,
                             fops1(fop \<mapsto> get_pct_lat fop_stats0 total_lat)))
          in (case field2str fop_stats stat dur of
                Inl e \<Rightarrow> (Inl e, fops2)
              | Inr col \<Rightarrow>
                  (case fill_columns stat dur total_lat rest fops2 of
                     (Inl e, fops3) \<Rightarrow> (Inl e, fops3)
                   | (Inr cols, fops3) \<Rightarrow> (Inr (col # cols), fops3))))"

text \<open>\<open>','.join(columns)\<close> raises TypeError on a column that is \<open>None\<close>.\<close>

definition join_columns :: "string option list \<Rightarrow> error + string" where
  "join_columns columns =
     (if None \<in> set columns then Inl TypeError else Inr (join_comma (map the columns)))"

text \<open>One pass of the loop over \<open>i\<close> in \<open>gen_per_fop_stats\<close>.\<close>

definition fop_row :: "bool \<Rightarrow> globals \<Rightarrow> string \<Rightarrow> nat \<Rightarrow> ProfileInterval
    \<Rightarrow> (error + string) \<times> ProfileInterval" where
  "fop_row pb G stat i interval_profile =
     (case accumulate_all (sorted_fop_names G) (fop_profiles interval_profile)
             (new_FopProfile 0 0 0 0) of
        Inl e \<Rightarrow> (Inl e, interval_profile)
      | Inr acc \<Rightarrow>
          let all_fop_profile = normalize_sum acc;
              ts = (if pb then show_int (gen_timestamp_ms G (int i)) @ '', '' else [])
          in (case fill_columns stat (duration interval_profile)
                     (avg_lat all_fop_profile * calls all_fop_profile)
                     (sorted_fop_names G) (fop_profiles interval_profile) of
                (Inl e, fops') \<Rightarrow> (Inl e, interval_profile\<lparr>fop_profiles := fops'\<rparr>)
              | (Inr columns, fops') \<Rightarrow>
                  (case join_columns columns of
                     Inl e \<Rightarrow> (Inl e, interval_profile\<lparr>fop_profiles := fops'\<rparr>)
                   | Inr txt \<Rightarrow> (Inr (ts @ txt), interval_profile\<lparr>fop_profiles := fops'\<rparr>))))"

fun fop_rows :: "bool \<Rightarrow> globals \<Rightarrow> string \<Rightarrow> nat \<Rightarrow> ProfileInterval list
    \<Rightarrow> (error + string list) \<times> ProfileInterval list" where
  "fop_rows pb G stat i [] = (Inr [], [])"
| "fop_rows pb G stat i (iv # ivs) =
     (case fop_row pb G stat i iv of
        (Inl e, iv') \<Rightarrow> (Inl e, iv' # ivs)
      | (Inr row, iv') \<Rightarrow>
          (case fop_rows pb G stat (Suc i) ivs of
             (Inl e, ivs') \<Rightarrow> (Inl e, iv' # ivs')
           | (Inr rows, ivs') \<Rightarrow> (Inr (row # rows), iv' # ivs')))"

text \<open>
  \<open>gen_per_fop_stats\<close>: the lines appended to \<open>stat + '.csv'\<close> (header, then one row per
  interval), and the list \<open>intervals\<close> as the call leaves it.
\<close>

definition gen_per_fop_stats :: "bool \<Rightarrow> globals \<Rightarrow> string \<Rightarrow> ProfileInterval list
    \<Rightarrow> (error + string list) \<times> ProfileInterval list" where
  "gen_per_fop_stats pb G stat ivs =
     (let hdr = (if pb then ''timestamp_ms, '' else []) @ join_comma (sorted_fop_names G)
      in case fop_rows pb G stat 0 ivs of
           (Inl e, ivs') \<Rightarrow> (Inl e, ivs')
         | (Inr rows, ivs') \<Rightarrow> (Inr (hdr # rows), ivs'))"

section \<open>Evaluation on concrete logs\<close>

lemma replicate_numeral_eval: "replicate (numeral v) x = x # replicate (numeral v - 1) x"
  by (simp add: numeral_eq_Suc)

lemmas fmt_defs = fmt_fixed_def round_half_even_def show_nat.simps show_int_def digit_char_def
  pad_left_def pad_right_def Let_def replicate_numeral_eval

lemmas parse_defs = parse_input_def parse_raw_def parse_header_def parse_line_def
  on_interval_marker_def on_duration_def on_bytes_read_def on_bytes_written_def on_fop_row_def
  fop_row_profile_def float_token_def int_token2_def duplicate_error_def
  py_nth_def py_update_def split_def strip_def is_space_def is_upper_def all_caps_name_match_def
  decimal_lib_def dec_int_def dec_float_def dec_ufloat_def dec_nat_def is_digit_def digit_val_def
  init_state_def new_ProfileInterval_def new_FopProfile_def Let_def

section \<open>The loop over the lines\<close>

lemma parse_lines_append:
  "parse_lines L e (xs @ ys) s =
     (case parse_lines L e xs s of Inl err \<Rightarrow> Inl err | Inr s' \<Rightarrow> parse_lines L e ys s')"
  by (induction xs arbitrary: s) (auto split: sum.splits)

lemma parse_line_duration_neutral:
  assumes "\<not> found_interval_output s" and "\<not> found_cumulative_output s"
    and "contains line ''Duration :''"
    and "\<not> (contains line ''Interval'' \<and> contains line ''stats'')"
    and "\<not> contains line ''Cumulative Stats''"
  shows "parse_line L e line s = Inl AssertionError"
  using assms by (auto simp: parse_line_def on_duration_def Let_def)

section \<open>Claims\<close>

text \<open>
  C10. A "Duration :" line met while neither flag is set makes parsing fail with the
  AssertionError of \<open>assert found_cumulative_output ^ found_interval_output\<close>: if the
  header parses, the lines before the "Duration :" line are parsed without error and
  leave both flags false (this is so before the first interval marker, where no line
  has been read, and after a "Current open fd" line that closes a cumulative block),
  and the line is not taken by an earlier branch of the chain, then \<open>parse_input\<close>
  returns that error whatever follows.
\<close>

theorem duration_outside_block_fails:
  assumes "parse_header L (map strip raw) = Inr (cnt, ivl, t)"
    and "drop 2 (map strip raw) = pre @ line # post"
    and "parse_lines L ivl pre init_state = Inr s"
    and "\<not> found_interval_output s" and "\<not> found_cumulative_output s"
    and "contains line ''Duration :''"
    and "\<not> (contains line ''Interval'' \<and> contains line ''stats'')"
    and "\<not> contains line ''Cumulative Stats''"
  shows "parse_input L raw = Inl AssertionError"
proof -
  have "parse_line L ivl line s = Inl AssertionError"
    using assms(4-8) by (rule parse_line_duration_neutral)
  then have "parse_lines L ivl (pre @ line # post) init_state = Inl AssertionError"
    using assms(3) by (simp add: parse_lines_append)
  then show ?thesis
    using assms(1,2) by (simp add: parse_input_def parse_raw_def Let_def)
qed

theorem duration_outside_block_fails_witness:
  "parse_input decimal_lib
     [''2 5'', ''Wed Oct 21 22:50:28 UTC 2015'', ''=== Interval 0 stats ==='',
      ''=== Cumulative stats ==='', ''Current open fd'', ''Duration : 5'',
      ''BytesRead : 3''] = Inl AssertionError
   \<and> parse_input decimal_lib
     [''2 5'', ''Wed Oct 21 22:50:28 UTC 2015'', ''Duration : 5''] = Inl AssertionError"
proof -
  let ?pre = "[''=== Interval 0 stats ==='', ''=== Cumulative stats ==='', ''Current open fd'']"
  let ?s = "\<lparr>found_cumulative_output = False, found_interval_output = False, fop_names = {},
      last_intvl = - 1, intvl = 0, sample = - 1, intervals = [new_ProfileInterval],
      warnings = []\<rparr>"
  have h: "parse_header decimal_lib (map strip [''2 5'', ''Wed Oct 21 22:50:28 UTC 2015'',
      ''=== Interval 0 stats ==='', ''=== Cumulative stats ==='', ''Current open fd'',
      ''Duration : 5'', ''BytesRead : 3'']) = Inr (2, 5, 1445467828000)"
    by (simp add: parse_defs)
  have d: "drop 2 (map strip [''2 5'', ''Wed Oct 21 22:50:28 UTC 2015'',
      ''=== Interval 0 stats ==='', ''=== Cumulative stats ==='', ''Current open fd'',
      ''Duration : 5'', ''BytesRead : 3'']) = ?pre @ ''Duration : 5'' # [''BytesRead : 3'']"
    by (simp add: strip_def is_space_def)
  have p: "parse_lines decimal_lib 5 ?pre init_state = Inr ?s"
    by (simp add: parse_defs)
  have a: "parse_input decimal_lib
     [''2 5'', ''Wed Oct 21 22:50:28 UTC 2015'', ''=== Interval 0 stats ==='',
      ''=== Cumulative stats ==='', ''Current open fd'', ''Duration : 5'',
      ''BytesRead : 3''] = Inl AssertionError"
    by (rule duration_outside_block_fails [OF h d p]) simp_all
  have h2: "parse_header decimal_lib (map strip [''2 5'', ''Wed Oct 21 22:50:28 UTC 2015'',
      ''Duration : 5'']) = Inr (2, 5, 1445467828000)"
    by (simp add: parse_defs)
  have d2: "drop 2 (map strip [''2 5'', ''Wed Oct 21 22:50:28 UTC 2015'', ''Duration : 5''])
      = [] @ ''Duration : 5'' # []"
    by (simp add: strip_def is_space_def)
  have p2: "parse_lines decimal_lib 5 [] init_state = Inr init_state"
    by simp
  have b: "parse_input decimal_lib
     [''2 5'', ''Wed Oct 21 22:50:28 UTC 2015'', ''Duration : 5''] = Inl AssertionError"
    by (rule duration_outside_block_fails [OF h2 d2 p2]) (simp_all add: init_state_def)
  from a b show ?thesis by simp
qed

text \<open>
  C2. The interval number of an "Interval <n> stats" line is read and never compared:
  the assertion of that branch relates the two loop counters, which differ by one from
  the start. A log whose only markers are numbered 5 and 9 is parsed into two intervals.
\<close>

theorem interval_number_not_checked:
  "map_sum id (length \<circ> snd)
     (parse_input decimal_lib
        [''2 5'', ''Wed Oct 21 22:50:28 UTC 2015'', ''=== Interval 5 stats ==='',
         ''=== Interval 9 stats ===''])
   = Inr 2"
  by (simp add: parse_defs)

text \<open>
  C6. Both flags are true after an "Interval 0 stats" line followed by a
  "Cumulative Stats" line (that branch sets one flag and leaves the other), and after
  "Interval 0 stats", "Cumulative stats", "Interval 1 stats" (the marker branch does not
  clear the cumulative flag).
\<close>

theorem both_flags_true:
  "map_sum id (found_interval_output \<circ> snd)
     (parse_raw decimal_lib
        [''2 5'', ''Wed Oct 21 22:50:28 UTC 2015'', ''=== Interval 0 stats ==='',
         ''Cumulative Stats'']) = Inr True
   \<and> map_sum id (found_cumulative_output \<circ> snd)
     (parse_raw decimal_lib
        [''2 5'', ''Wed Oct 21 22:50:28 UTC 2015'', ''=== Interval 0 stats ==='',
         ''Cumulative Stats'']) = Inr True
   \<and> map_sum id (found_interval_output \<circ> snd)
     (parse_raw decimal_lib
        [''2 5'', ''Wed Oct 21 22:50:28 UTC 2015'', ''=== Interval 0 stats ==='',
         ''=== Cumulative stats ==='', ''=== Interval 1 stats ===''])  = Inr True
   \<and> map_sum id (found_cumulative_output \<circ> snd)
     (parse_raw decimal_lib
        [''2 5'', ''Wed Oct 21 22:50:28 UTC 2015'', ''=== Interval 0 stats ==='',
         ''=== Cumulative stats ==='', ''=== Interval 1 stats ===''])  = Inr True"
  by (simp add: parse_defs)

section \<open>The aggregation loops\<close>

lemma get_pct_lat_fields [simp]:
  "avg_lat (get_pct_lat v t) = avg_lat v" "min_lat (get_pct_lat v t) = min_lat v"
  "max_lat (get_pct_lat v t) = max_lat v" "calls (get_pct_lat v t) = calls v"
  by (simp_all add: get_pct_lat_def)

lemma get_pct_lat_as_update:
  "get_pct_lat v t = v\<lparr>pct_lat := (if t = 0 then 0 else 100 * (avg_lat v * calls v) / t)\<rparr>"
  by (simp add: get_pct_lat_def)

lemma get_pct_lat_twice [simp]: "get_pct_lat (get_pct_lat v t) t = get_pct_lat v t"
  by (simp add: get_pct_lat_def)

text \<open>
  The second inner loop changes nothing but \<open>pct_lat\<close>, whether it ends or raises:
  the old and the new dictionary agree once \<open>pct_lat\<close> is blanked.
\<close>

lemma get_pct_lat_blank [simp]: "(get_pct_lat v t)\<lparr>pct_lat := 0\<rparr> = v\<lparr>pct_lat := 0\<rparr>"
  by (simp add: get_pct_lat_def)

lemma fill_columns_frame:
  "fill_columns stat dur t names fops = (r, fops') \<Longrightarrow>
     map_option (\<lambda>v. v\<lparr>pct_lat := 0\<rparr>) (fops' f) = map_option (\<lambda>v. v\<lparr>pct_lat := 0\<rparr>) (fops f)"
proof (induction names arbitrary: fops r fops')
  case Nil
  then show ?case by simp
next
  case (Cons fop rest)
  show ?case
  proof (cases "fops fop")
    case None
    with Cons.prems show ?thesis by simp
  next
    case (Some v0)
    let ?fops1 = "fops(fop \<mapsto> get_pct_lat v0 t)"
    have step: "map_option (\<lambda>v. v\<lparr>pct_lat := 0\<rparr>) (?fops1 f)
        = map_option (\<lambda>v. v\<lparr>pct_lat := 0\<rparr>) (fops f)"
      using Some by simp
    show ?thesis
    proof (cases "field2str (get_pct_lat v0 t) stat dur")
      case (Inl e)
      with Cons.prems Some have "fops' = ?fops1" by simp
      with step show ?thesis by simp
    next
      case (Inr col)
      obtain r2 fops3 where rec: "fill_columns stat dur t rest ?fops1 = (r2, fops3)"
        by (cases "fill_columns stat dur t rest ?fops1")
      with Cons.prems Some Inr have "fops' = fops3"
        by (auto split: sum.splits)
      with Cons.IH [OF rec] step show ?thesis by simp
    qed
  qed
qed

text \<open>When the loop ends, every name of the list has its \<open>pct_lat\<close> from \<open>get_pct_lat\<close>.\<close>

lemma fill_columns_result:
  "fill_columns stat dur t names fops = (Inr cols, fops') \<Longrightarrow>
     length cols = length names
     \<and> set names \<subseteq> dom fops
     \<and> fops' = (\<lambda>f. if f \<in> set names then map_option (\<lambda>v. get_pct_lat v t) (fops f) else fops f)"
proof (induction names arbitrary: fops cols fops')
  case Nil
  then show ?case by auto
next
  case (Cons fop rest)
  from Cons.prems obtain v0 where v0: "fops fop = Some v0"
    by (cases "fops fop") auto
  let ?fops1 = "fops(fop \<mapsto> get_pct_lat v0 t)"
  from Cons.prems v0 obtain col where col: "field2str (get_pct_lat v0 t) stat dur = Inr col"
    by (cases "field2str (get_pct_lat v0 t) stat dur") auto
  obtain r2 fops3 where rec: "fill_columns stat dur t rest ?fops1 = (r2, fops3)"
    by (cases "fill_columns stat dur t rest ?fops1")
  with Cons.prems v0 col obtain cols2 where r2: "r2 = Inr cols2" "cols = col # cols2" "fops' = fops3"
    by (cases r2) auto
  from Cons.IH [OF rec [unfolded r2(1)]] have ih:
    "length cols2 = length rest" "set rest \<subseteq> dom ?fops1"
    "fops3 = (\<lambda>f. if f \<in> set rest then map_option (\<lambda>v. get_pct_lat v t) (?fops1 f) else ?fops1 f)"
    by auto
  have "fops' = (\<lambda>f. if f \<in> set (fop # rest) then map_option (\<lambda>v. get_pct_lat v t) (fops f) else fops f)"
    unfolding r2(3) ih(3) using v0 by (auto simp: fun_eq_iff)
  moreover have "set (fop # rest) \<subseteq> dom fops"
    using ih(2) v0 by auto
  ultimately show ?case using r2(2) ih(1) by simp
qed

text \<open>The first inner loop: it raises KeyError exactly when a name is missing, and
  otherwise adds up the calls and the call-weighted latencies.\<close>

lemma accumulate_all_Inl:
  "accumulate_all names fops acc = Inl e \<Longrightarrow> e = KeyError \<and> \<not> set names \<subseteq> dom fops"
  by (induction names arbitrary: acc) (auto split: option.splits)

lemma accumulate_all_missing:
  "\<not> set names \<subseteq> dom fops \<Longrightarrow> accumulate_all names fops acc = Inl KeyError"
  by (induction names arbitrary: acc) (auto split: option.splits)

lemma accumulate_all_Inr:
  "accumulate_all names fops acc = Inr a \<Longrightarrow>
     set names \<subseteq> dom fops
     \<and> calls a = calls acc + (\<Sum>f\<leftarrow>names. calls (the (fops f)))
     \<and> avg_lat a = avg_lat acc + (\<Sum>f\<leftarrow>names. avg_lat (the (fops f)) * calls (the (fops f)))"
proof (induction names arbitrary: acc)
  case Nil
  then show ?case by simp
next
  case (Cons fop rest)
  from Cons.prems obtain v where v: "fops fop = Some v"
    by (cases "fops fop") auto
  with Cons.prems have "accumulate_all rest fops (accumulate acc v) = Inr a" by simp
  from Cons.IH [OF this] v show ?case
    by (auto simp: accumulate_def Let_def)
qed

text \<open>One pass of the outer loop.\<close>

lemma fop_row_frame:
  assumes "fop_row pb G stat i iv = (r, iv')"
  shows "bytes_read iv' = bytes_read iv \<and> bytes_written iv' = bytes_written iv
     \<and> duration iv' = duration iv
     \<and> map_option (\<lambda>v. v\<lparr>pct_lat := 0\<rparr>) (fop_profiles iv' f)
         = map_option (\<lambda>v. v\<lparr>pct_lat := 0\<rparr>) (fop_profiles iv f)"
proof (cases "accumulate_all (sorted_fop_names G) (fop_profiles iv) (new_FopProfile 0 0 0 0)")
  case (Inl e)
  with assms have "iv' = iv" by (simp add: fop_row_def)
  then show ?thesis by simp
next
  case (Inr acc)
  let ?t = "avg_lat (normalize_sum acc) * calls (normalize_sum acc)"
  obtain r2 fops' where fc:
    "fill_columns stat (duration iv) ?t (sorted_fop_names G) (fop_profiles iv) = (r2, fops')"
    by (cases "fill_columns stat (duration iv) ?t (sorted_fop_names G) (fop_profiles iv)")
  with assms Inr have "iv' = iv\<lparr>fop_profiles := fops'\<rparr>"
    by (auto simp: fop_row_def Let_def split: sum.splits)
  with fill_columns_frame [OF fc] show ?thesis by simp
qed

lemma fop_rows_length:
  "fop_rows pb G stat i ivs = (r, ivs') \<Longrightarrow> length ivs' = length ivs"
proof (induction ivs arbitrary: i r ivs')
  case Nil
  then show ?case by simp
next
  case (Cons iv ivs)
  obtain r1 iv1 where a: "fop_row pb G stat i iv = (r1, iv1)"
    by (cases "fop_row pb G stat i iv")
  obtain r2 ivs2 where b: "fop_rows pb G stat (Suc i) ivs = (r2, ivs2)"
    by (cases "fop_rows pb G stat (Suc i) ivs")
  from Cons.prems a b have "ivs' = iv1 # ivs \<or> ivs' = iv1 # ivs2"
    by (auto split: sum.splits)
  with Cons.IH [OF b] show ?case by auto
qed

text \<open>
  Interval \<open>k\<close> of the list either has not been reached (an earlier pass raised) and is
  as it was, or is what its pass of the loop left.
\<close>

lemma fop_rows_nth:
  "fop_rows pb G stat i ivs = (r, ivs') \<Longrightarrow> k < length ivs \<Longrightarrow>
     ivs' ! k = ivs ! k \<or> ivs' ! k = snd (fop_row pb G stat (i + k) (ivs ! k))"
proof (induction ivs arbitrary: i r ivs' k)
  case Nil
  then show ?case by simp
next
  case (Cons iv ivs)
  obtain r1 iv1 where a: "fop_row pb G stat i iv = (r1, iv1)"
    by (cases "fop_row pb G stat i iv")
  obtain r2 ivs2 where b: "fop_rows pb G stat (Suc i) ivs = (r2, ivs2)"
    by (cases "fop_rows pb G stat (Suc i) ivs")
  from Cons.prems(1) a b have c: "ivs' = iv1 # ivs \<or> ivs' = iv1 # ivs2"
    by (auto split: sum.splits)
  show ?case
  proof (cases k)
    case 0
    with a c show ?thesis by auto
  next
    case (Suc k')
    with Cons.prems(2) have "k' < length ivs" by simp
    from Cons.IH [OF b this] Suc c show ?thesis by auto
  qed
qed

lemma fop_rows_Inr_nth:
  "fop_rows pb G stat i ivs = (Inr rows, ivs') \<Longrightarrow>
     length rows = length ivs
     \<and> (\<forall>k<length ivs. fop_row pb G stat (i + k) (ivs ! k) = (Inr (rows ! k), ivs' ! k))"
proof (induction ivs arbitrary: i rows ivs')
  case Nil
  then show ?case by simp
next
  case (Cons iv ivs)
  obtain r1 iv1 where a: "fop_row pb G stat i iv = (r1, iv1)"
    by (cases "fop_row pb G stat i iv")
  obtain r2 ivs2 where b: "fop_rows pb G stat (Suc i) ivs = (r2, ivs2)"
    by (cases "fop_rows pb G stat (Suc i) ivs")
  from Cons.prems a b obtain row rows2 where
    c: "r1 = Inr row" "r2 = Inr rows2" "rows = row # rows2" "ivs' = iv1 # ivs2"
    by (cases r1; cases r2) auto
  from Cons.IH [OF b [unfolded c(2)]] have ih: "length rows2 = length ivs"
    "\<And>k. k < length ivs \<Longrightarrow>
        fop_row pb G stat (Suc i + k) (ivs ! k) = (Inr (rows2 ! k), ivs2 ! k)"
    by auto
  have "fop_row pb G stat (i + k) ((iv # ivs) ! k) = (Inr (rows ! k), ivs' ! k)"
    if "k < length (iv # ivs)" for k
  proof (cases k)
    case 0
    with a c show ?thesis by simp
  next
    case (Suc k')
    with that ih(2) [of k'] c show ?thesis by simp
  qed
  with ih(1) c(3) show ?case by simp
qed

end
